theory Spec2Isabelle
  imports Main "HOL-Library.AList"
begin

section \<open>JavaScript values and strings\<close>

text \<open>
  Strings are byte strings (UTF-8 for text outside ASCII). Whitespace is the ASCII
  whitespace that \<^verbatim>\<open>String.prototype.trim\<close> and the RegExp class \<^verbatim>\<open>\s\<close> share
  (tab, line feed, vertical tab, form feed, carriage return, space); the Unicode
  spaces beyond ASCII are not represented.
\<close>

definition is_space :: "char \<Rightarrow> bool" where
  "is_space c = (c \<in> set [CHR 0x09, CHR 0x0A, CHR 0x0B, CHR 0x0C, CHR 0x0D, CHR 0x20])"

definition trim :: "string \<Rightarrow> string" where
  "trim s = rev (dropWhile is_space (rev (dropWhile is_space s)))"

definition startsWith :: "string \<Rightarrow> string \<Rightarrow> bool" where
  "startsWith s p = (take (length p) s = p)"

fun str_includes :: "string \<Rightarrow> string \<Rightarrow> bool" where
  "str_includes [] p = (p = [])"
| "str_includes (c # cs) p = (if startsWith (c # cs) p then True else str_includes cs p)"

definition lower :: "char \<Rightarrow> char" where
  "lower c = (let n = (of_char c :: nat) in if 65 \<le> n \<and> n \<le> 90 then char_of (n + 32) else c)"

text \<open>
  The values of JSON, which is what request variables and upstream payloads are.
  Numbers are integers here. \<^verbatim>\<open>undefined\<close> is \<open>None\<close> of \<open>json option\<close>.
\<close>

datatype json =
    JNull
  | JBool bool
  | JNum int
  | JStr string
  | JArr "json list"
  | JObj "(string \<times> json) list"

fun truthy :: "json \<Rightarrow> bool" where
  "truthy JNull = False"
| "truthy (JBool b) = b"
| "truthy (JNum n) = (n \<noteq> 0)"
| "truthy (JStr s) = (s \<noteq> [])"
| "truthy (JArr xs) = True"
| "truthy (JObj kvs) = True"

text \<open>\<^verbatim>\<open>a || b\<close>, where \<open>a\<close> may be \<^verbatim>\<open>undefined\<close>.\<close>

fun js_or :: "json option \<Rightarrow> json \<Rightarrow> json" where
  "js_or None b = b"
| "js_or (Some a) b = (if truthy a then a else b)"

text \<open>Property read \<^verbatim>\<open>v.k\<close> on a value that is neither null nor undefined.\<close>

fun get_prop :: "json \<Rightarrow> string \<Rightarrow> json option" where
  "get_prop (JObj kvs) k = map_of kvs k"
| "get_prop v k = None"

text \<open>Optional chaining \<^verbatim>\<open>v?.k\<close>: null and undefined give undefined.\<close>

fun opt_prop :: "json option \<Rightarrow> string \<Rightarrow> json option" where
  "opt_prop None k = None"
| "opt_prop (Some JNull) k = None"
| "opt_prop (Some v) k = get_prop v k"

text \<open>\<^verbatim>\<open>v?.[0]\<close>: the first element of an array, the first unit of a string.\<close>

fun opt_first :: "json option \<Rightarrow> json option" where
  "opt_first (Some (JArr (x # xs))) = Some x"
| "opt_first (Some (JStr (c # cs))) = Some (JStr [c])"
| "opt_first (Some (JObj kvs)) = map_of kvs ''0''"
| "opt_first v = None"

subsection \<open>Numbers as text\<close>

definition digit_char :: "nat \<Rightarrow> char" where
  "digit_char d = ''0123456789abcdefghijklmnopqrstuvwxyz'' ! (d mod 36)"

function to_base :: "nat \<Rightarrow> nat \<Rightarrow> string" where
  "to_base b n = (if b < 2 then [digit_char n] else if n < b then [digit_char n]
                  else to_base b (n div b) @ [digit_char (n mod b)])"
  by pat_completeness auto
termination
  by (relation "measure (\<lambda>(b, n). n)") auto

declare to_base.simps [simp del]

definition show_nat :: "nat \<Rightarrow> string" where
  "show_nat n = to_base 10 n"

definition show_int :: "int \<Rightarrow> string" where
  "show_int i = (if i < 0 then CHR ''-'' # show_nat (nat (- i)) else show_nat (nat i))"

definition pad :: "nat \<Rightarrow> nat \<Rightarrow> string" where
  "pad w n = replicate (w - length (show_nat n)) CHR ''0'' @ show_nat n"

text \<open>
  \<^verbatim>\<open>Date.prototype.toISOString\<close> of a time given in milliseconds since the epoch,
  for the years up to 9999 (days to civil date, then the fixed-width fields).
\<close>

definition toISOString :: "nat \<Rightarrow> string" where
  "toISOString ms =
     (let days = ms div 86400000;
          r = ms mod 86400000;
          z = days + 719468;
          era = z div 146097;
          doe = z mod 146097;
          yoe = (doe - doe div 1460 + doe div 36524 - doe div 146096) div 365;
          doy = doe - (365 * yoe + yoe div 4 - yoe div 100);
          mp = (5 * doy + 2) div 153;
          d = doy - (153 * mp + 2) div 5 + 1;
          m = (if mp < 10 then mp + 3 else mp - 9);
          y = yoe + era * 400 + (if m \<le> 2 then 1 else 0)
      in pad 4 y @ ''-'' @ pad 2 m @ ''-'' @ pad 2 d @ ''T''
         @ pad 2 (r div 3600000) @ '':'' @ pad 2 (r div 60000 mod 60) @ '':''
         @ pad 2 (r div 1000 mod 60) @ ''.'' @ pad 3 (r mod 1000) @ ''Z'')"

subsection \<open>JSON.stringify and string conversion\<close>

definition hex2 :: "nat \<Rightarrow> string" where
  "hex2 n = [digit_char (n div 16 mod 16), digit_char (n mod 16)]"

definition json_escape_char :: "char \<Rightarrow> string" where
  "json_escape_char c =
     (if c = CHR 0x22 then [CHR 0x5C, CHR 0x22]
      else if c = CHR 0x5C then [CHR 0x5C, CHR 0x5C]
      else if c = CHR 0x08 then [CHR 0x5C, CHR ''b'']
      else if c = CHR 0x0C then [CHR 0x5C, CHR ''f'']
      else if c = CHR 0x0A then [CHR 0x5C, CHR ''n'']
      else if c = CHR 0x0D then [CHR 0x5C, CHR ''r'']
      else if c = CHR 0x09 then [CHR 0x5C, CHR ''t'']
      else if (of_char c :: nat) < 32 then [CHR 0x5C, CHR ''u'', CHR ''0'', CHR ''0''] @ hex2 (of_char c)
      else [c])"

definition json_quote :: "string \<Rightarrow> string" where
  "json_quote s = [CHR 0x22] @ concat (map json_escape_char s) @ [CHR 0x22]"

fun join :: "string \<Rightarrow> string list \<Rightarrow> string" where
  "join sep [] = []"
| "join sep [x] = x"
| "join sep (x # y # ys) = x @ sep @ join sep (y # ys)"

fun stringify :: "json \<Rightarrow> string" where
  "stringify JNull = ''null''"
| "stringify (JBool b) = (if b then ''true'' else ''false'')"
| "stringify (JNum n) = show_int n"
| "stringify (JStr s) = json_quote s"
| "stringify (JArr xs) = ''['' @ join '','' (map stringify xs) @ '']''"
| "stringify (JObj kvs) =
     ''{'' @ join '','' (map (\<lambda>kv. json_quote (fst kv) @ '':'' @ stringify (snd kv)) kvs) @ ''}''"

text \<open>\<^verbatim>\<open>String(v)\<close>, as a template literal applies it.\<close>

fun js_to_string :: "json \<Rightarrow> string" where
  "js_to_string JNull = ''null''"
| "js_to_string (JBool b) = (if b then ''true'' else ''false'')"
| "js_to_string (JNum n) = show_int n"
| "js_to_string (JStr s) = s"
| "js_to_string (JArr xs) =
     join '','' (map (\<lambda>x. if x = JNull then [] else js_to_string x) xs)"
| "js_to_string (JObj kvs) = ''[object Object]''"

section \<open>utils: extractVariableFromQuery\<close>


definition match_here :: "string \<Rightarrow> string \<Rightarrow> string option" where
  "match_here name s =
     (if length name \<le> length s \<and> map lower (take (length name) s) = map lower name then
        (case drop (length name) s of
           [] \<Rightarrow> None
         | c # rest \<Rightarrow>
             if c = CHR '':'' then
               (case dropWhile is_space rest of
                  [] \<Rightarrow> None
                | q # body \<Rightarrow>
                    if q = CHR 0x22 then
                      (let v = takeWhile (\<lambda>x. x \<noteq> CHR 0x22) body
                       in if length v < length body then Some v else None)
                    else None)
             else None)
      else None)"

fun regex_search :: "string \<Rightarrow> string \<Rightarrow> string option" where
  "regex_search name [] = match_here name []"
| "regex_search name (c # cs) =
     (case match_here name (c # cs) of
        Some v \<Rightarrow> Some v
      | None \<Rightarrow> regex_search name cs)"

definition extractVariableFromQuery :: "string \<Rightarrow> string \<Rightarrow> json" where
  "extractVariableFromQuery query variableName =
     (case regex_search variableName query of Some v \<Rightarrow> JStr v | None \<Rightarrow> JNull)"

text \<open>
  The expression \<^verbatim>\<open>variables.name || extractVariableFromQuery(query, 'name')\<close> that
  every resolver uses to obtain an argument.
\<close>

type_synonym variables = "(string \<times> json) list"

definition resolve :: "variables \<Rightarrow> string \<Rightarrow> string \<Rightarrow> json" where
  "resolve vars query name = js_or (map_of vars name) (extractVariableFromQuery query name)"

section \<open>types: messages, sessions, results\<close>

text \<open>
  A timestamp is kept as the milliseconds since the epoch that \<^verbatim>\<open>new Date()\<close> read;
  \<open>toISOString\<close> renders it where text is produced, and the order of the renderings
  is the order of the numbers. Message objects live in a heap, addressed by position,
  because the stream reader keeps updating the assistant message after the resolver
  has returned; a session holds the addresses of its messages.
\<close>

datatype role = User | Assistant | System

fun role_name :: "role \<Rightarrow> string" where
  "role_name User = ''user''"
| "role_name Assistant = ''assistant''"
| "role_name System = ''system''"

record ChatMessage =
  message_id :: string
  role :: role
  content :: string
  timestamp :: nat

type_synonym addr = nat

record ChatSession =
  session_id :: string
  messages :: "addr list"
  createdAt :: nat
  updatedAt :: nat

datatype thrown = JsError string | NonError

datatype body_end = EndOfBody | ReadFails thrown

text \<open>The decoded text chunks of a response body, and how reading it ends.\<close>

type_synonym body = "string list \<times> body_end"

record response =
  ok :: bool
  status :: nat
  text_result :: "thrown + string"
  response_body :: "body option"

datatype fetch_outcome = Rejects thrown | Resolves response

text \<open>
  What the program reads from outside: the milliseconds that pass before each reading of
  the clock (the clock is taken never to run backwards, and two readings may coincide), the
  text \<^verbatim>\<open>Math.random().toString(36).substr(2, 9)\<close> of each call, the completion endpoint's
  answer to each request (its messages as role and content; model, token limit, temperature
  and the stream flag are constants of the request), and \<^verbatim>\<open>JSON.parse\<close> (\<open>None\<close> where
  it throws). The state holds the session map in insertion order, the message objects, the
  last reading of the clock and how often each source has been read. A resolver runs from
  call to return without another request in between.
\<close>

record env =
  tick :: "nat \<Rightarrow> nat"
  random :: "nat \<Rightarrow> string"
  fetch :: "nat \<Rightarrow> (string \<times> string) list \<Rightarrow> fetch_outcome"
  JSON_parse :: "string \<Rightarrow> json option"

record world =
  chatSessions :: "(string \<times> ChatSession) list"
  heap :: "ChatMessage list"
  clock :: nat
  date_reads :: nat
  random_calls :: nat
  fetch_calls :: nat

definition initial_world :: world where
  "initial_world =
     \<lparr>chatSessions = [], heap = [], clock = 0, date_reads = 0, random_calls = 0, fetch_calls = 0\<rparr>"

text \<open>The stream a successful sendMessage hands back: the upstream body still to be
  decoded, and the assistant message that its reader fills.\<close>

record pending_stream =
  upstream :: body
  assistant :: addr

text \<open>The object literal under \<^verbatim>\<open>data.sendMessage\<close>. A key the literal does not have is
  \<open>None\<close>; \<open>Some None\<close> is a key holding null.\<close>

record ChatResponse =
  success :: bool
  message :: "ChatMessage option option"
  stream :: "pending_stream option"
  session :: ChatSession
  error :: "string option"

text \<open>The dynamic fields of the apiInfo blob; its fixed schema metadata is left out.\<close>

record api_info =
  info_timestamp :: nat
  sessionsCount :: nat
  uptime :: nat

datatype data =
    Hello string
  | ApiInfo api_info
  | GetChatSession "ChatSession option"
  | CreateChatSession ChatSession
  | ClearChatSession ChatSession
  | DeleteChatSession bool
  | SendMessage ChatResponse

datatype gql_response = Data data | Errors "string list"

section \<open>Clock, identifiers, the session store\<close>

definition Date_now :: "env \<Rightarrow> world \<Rightarrow> nat \<times> world" where
  "Date_now e w =
     (let t = clock w + tick e (date_reads w)
      in (t, w\<lparr>clock := t, date_reads := Suc (date_reads w)\<rparr>))"

definition Math_random :: "env \<Rightarrow> world \<Rightarrow> string \<times> world" where
  "Math_random e w = (random e (random_calls w), w\<lparr>random_calls := Suc (random_calls w)\<rparr>)"

definition generateId :: "env \<Rightarrow> world \<Rightarrow> string \<times> world" where
  "generateId e w =
     (case Math_random e w of (r, w1) \<Rightarrow>
      case Date_now e w1 of (t, w2) \<Rightarrow>
        (''id_'' @ r @ to_base 36 t, w2))"

text \<open>\<^verbatim>\<open>chatSessions.get(k)\<close> and \<^verbatim>\<open>chatSessions.delete(k)\<close> for a key of any type: the
  keys of the map are strings, so no other value finds an entry.\<close>

fun store_get :: "(string \<times> ChatSession) list \<Rightarrow> json \<Rightarrow> ChatSession option" where
  "store_get st (JStr k) = map_of st k"
| "store_get st v = None"

fun store_delete :: "(string \<times> ChatSession) list \<Rightarrow> json \<Rightarrow> bool \<times> (string \<times> ChatSession) list" where
  "store_delete st (JStr k) = (k \<in> fst ` set st, AList.delete k st)"
| "store_delete st v = (False, st)"

definition alloc :: "ChatMessage \<Rightarrow> world \<Rightarrow> addr \<times> world" where
  "alloc m w = (length (heap w), w\<lparr>heap := heap w @ [m]\<rparr>)"

section \<open>services/deepseek: the completion adapter\<close>

definition system_prompt :: string where
  "system_prompt =
     ''You are a helpful AI assistant. Please provide accurate and helpful responses in Chinese.''"

text \<open>The messages of the adapter that are not ASCII, as their UTF-8 bytes.\<close>

definition api_error_prefix :: string where
  "api_error_prefix = ''DeepSeek API '' @ [CHR 0xE9, CHR 0x94, CHR 0x99, CHR 0xE8, CHR 0xAF, CHR 0xAF] @ '': ''"

definition no_body_message :: string where
  "no_body_message = ''DeepSeek API '' @ [CHR 0xE6, CHR 0xB2, CHR 0xA1, CHR 0xE6, CHR 0x9C, CHR 0x89, CHR 0xE8, CHR 0xBF, CHR 0x94, CHR 0xE5, CHR 0x9B, CHR 0x9E, CHR 0xE6, CHR 0xB5, CHR 0x81, CHR 0xE5, CHR 0xBC, CHR 0x8F, CHR 0xE5, CHR 0x93, CHR 0x8D, CHR 0xE5, CHR 0xBA, CHR 0x94]"

definition unknown_error :: string where
  "unknown_error = [CHR 0xE6, CHR 0x9C, CHR 0xAA, CHR 0xE7, CHR 0x9F, CHR 0xA5, CHR 0xE9, CHR 0x94, CHR 0x99, CHR 0xE8, CHR 0xAF, CHR 0xAF]"

definition parse_error :: string where
  "parse_error = [CHR 0xE6, CHR 0x95, CHR 0xB0, CHR 0xE6, CHR 0x8D, CHR 0xAE, CHR 0xE8, CHR 0xA7, CHR 0xA3, CHR 0xE6, CHR 0x9E, CHR 0x90, CHR 0xE9, CHR 0x94, CHR 0x99, CHR 0xE8, CHR 0xAF, CHR 0xAF]"

definition unknown_call_error :: string where
  "unknown_call_error = [CHR 0xE8, CHR 0xB0, CHR 0x83, CHR 0xE7, CHR 0x94, CHR 0xA8, CHR 0x20, CHR 0x44, CHR 0x65, CHR 0x65, CHR 0x70, CHR 0x53, CHR 0x65, CHR 0x65, CHR 0x6B, CHR 0x20, CHR 0x41, CHR 0x50, CHR 0x49, CHR 0x20, CHR 0xE6, CHR 0x97, CHR 0xB6, CHR 0xE5, CHR 0x8F, CHR 0x91, CHR 0xE7, CHR 0x94, CHR 0x9F, CHR 0xE6, CHR 0x9C, CHR 0xAA, CHR 0xE7, CHR 0x9F, CHR 0xA5, CHR 0xE9, CHR 0x94, CHR 0x99, CHR 0xE8, CHR 0xAF, CHR 0xAF]"

text \<open>The outer catch of getChatCompletion: an Error is thrown again, anything else
  is replaced by an Error.\<close>

fun rethrow :: "thrown + 'a \<Rightarrow> thrown + 'a" where
  "rethrow (Inl (JsError m)) = Inl (JsError m)"
| "rethrow (Inl NonError) = Inl (JsError unknown_call_error)"
| "rethrow (Inr x) = Inr x"

text \<open>
  getChatCompletion up to the point where it returns the stream or throws. The stream
  it returns is the response body, which \<open>start\<close> below decodes.
\<close>

definition getChatCompletion :: "env \<Rightarrow> ChatMessage list \<Rightarrow> world \<Rightarrow> (thrown + body) \<times> world" where
  "getChatCompletion e msgs w =
     (let apiMessages = (''system'', system_prompt) # map (\<lambda>msg. (role_name (role msg), content msg)) msgs;
          outcome = fetch e (fetch_calls w) apiMessages;
          w1 = w\<lparr>fetch_calls := Suc (fetch_calls w)\<rparr>
      in (rethrow
            (case outcome of
               Rejects t \<Rightarrow> Inl t
             | Resolves r \<Rightarrow>
                 if ok r then
                   (case response_body r of
                      None \<Rightarrow> Inl (JsError no_body_message)
                    | Some bd \<Rightarrow> Inr bd)
                 else
                   (case text_result r of
                      Inl t \<Rightarrow> Inl t
                    | Inr errorText \<Rightarrow>
                        Inl (JsError (api_error_prefix @ show_nat (status r) @ '' '' @ errorText)))),
          w1))"

definition callDeepSeekAPI :: "env \<Rightarrow> ChatMessage list \<Rightarrow> world \<Rightarrow> (thrown + body) \<times> world" where
  "callDeepSeekAPI e msgs w = getChatCompletion e msgs w"

subsection \<open>Decoding the event stream\<close>

text \<open>
  The objects the adapter enqueues, before \<^verbatim>\<open>JSON.stringify\<close>. \<open>chunk_of\<close> is the string
  that reaches the reader.
\<close>

datatype event = Start nat | Content json | End nat | Error json

fun event_json :: "event \<Rightarrow> json" where
  "event_json (Start t) = JObj [(''type'', JStr ''start''), (''timestamp'', JStr (toISOString t))]"
| "event_json (Content c) = JObj [(''type'', JStr ''content''), (''content'', c)]"
| "event_json (End t) = JObj [(''type'', JStr ''end''), (''timestamp'', JStr (toISOString t))]"
| "event_json (Error m) = JObj [(''type'', JStr ''error''), (''error'', m)]"

definition chunk_of :: "event \<Rightarrow> string" where
  "chunk_of ev = stringify (event_json ev)"

record decoder =
  buffer :: string
  isFirstChunk :: bool
  hasError :: bool
  queue :: "event list"
  closed :: bool

definition enqueue :: "event \<Rightarrow> decoder \<Rightarrow> decoder" where
  "enqueue ev d = d\<lparr>queue := queue d @ [ev]\<rparr>"

text \<open>\<^verbatim>\<open>buffer.split('\n')\<close>\<close>

fun split_lines :: "string \<Rightarrow> string list" where
  "split_lines [] = [[]]"
| "split_lines (c # cs) =
     (if c = CHR 0x0A then [] # split_lines cs
      else (case split_lines cs of [] \<Rightarrow> [[c]] | l # ls \<Rightarrow> (c # l) # ls))"

text \<open>
  The part of the loop body after the error check: the content of the first choice's
  delta, the start marker before the first content.
\<close>

definition emit_content :: "env \<Rightarrow> json \<Rightarrow> decoder \<times> world \<Rightarrow> decoder \<times> world" where
  "emit_content e parsed dw =
     (case dw of (d, w) \<Rightarrow>
        (case opt_prop (opt_prop (opt_first (get_prop parsed ''choices'')) ''delta'') ''content'' of
           None \<Rightarrow> (d, w)
         | Some c \<Rightarrow>
             if truthy c then
               (if isFirstChunk d then
                  (case Date_now e w of (t, w1) \<Rightarrow>
                     (enqueue (Content c) ((enqueue (Start t) d)\<lparr>isFirstChunk := False\<rparr>), w1))
                else (enqueue (Content c) d, w))
             else (d, w)))"

text \<open>
  One line of the buffer. The flag says that \<open>start\<close> returned from inside the loop
  (after closing the controller). A payload that does not parse, or that parses to
  null (reading its \<open>error\<close> property throws), lands in the inner catch.
\<close>

definition process_line :: "env \<Rightarrow> string \<Rightarrow> decoder \<times> world \<Rightarrow> bool \<times> decoder \<times> world" where
  "process_line e line dw =
     (case dw of (d, w) \<Rightarrow>
      if startsWith line ''data: '' then
        (let data = drop 6 line in
         if data = ''[DONE]'' then (True, d\<lparr>closed := True\<rparr>, w)
         else
           (case JSON_parse e data of
              None \<Rightarrow> (False, enqueue (Error (JStr parse_error)) d, w)
            | Some JNull \<Rightarrow> (False, enqueue (Error (JStr parse_error)) d, w)
            | Some parsed \<Rightarrow>
                (case get_prop parsed ''error'' of
                   None \<Rightarrow> (case emit_content e parsed (d, w) of (d1, w1) \<Rightarrow> (False, d1, w1))
                 | Some err \<Rightarrow>
                     if truthy err then
                       (True,
                        (enqueue (Error (js_or (get_prop err ''message'') (JStr unknown_error)))
                           (d\<lparr>hasError := True\<rparr>))\<lparr>closed := True\<rparr>,
                        w)
                     else (case emit_content e parsed (d, w) of (d1, w1) \<Rightarrow> (False, d1, w1)))))
      else (False, d, w))"

fun process_lines :: "env \<Rightarrow> string list \<Rightarrow> decoder \<times> world \<Rightarrow> bool \<times> decoder \<times> world" where
  "process_lines e [] dw = (False, dw)"
| "process_lines e (line # ls) dw =
     (case process_line e line dw of
        (True, dw1) \<Rightarrow> (True, dw1)
      | (False, dw1) \<Rightarrow> process_lines e ls dw1)"

text \<open>
  The read loop of \<open>start\<close>, one body chunk at a time, and what follows it: the end
  marker when the body is exhausted, the outer catch when reading fails, and the
  \<open>finally\<close> that leaves the controller closed.
\<close>

fun read_loop :: "env \<Rightarrow> string list \<Rightarrow> body_end \<Rightarrow> decoder \<times> world \<Rightarrow> decoder \<times> world" where
  "read_loop e [] bend dw =
     (case dw of (d, w) \<Rightarrow>
        (case bend of
           EndOfBody \<Rightarrow>
             (if hasError d then (d\<lparr>closed := True\<rparr>, w)
              else (case Date_now e w of (t, w1) \<Rightarrow> ((enqueue (End t) d)\<lparr>closed := True\<rparr>, w1)))
         | ReadFails (JsError m) \<Rightarrow> ((enqueue (Error (JStr m)) d)\<lparr>closed := True\<rparr>, w)
         | ReadFails NonError \<Rightarrow> ((enqueue (Error (JStr unknown_error)) d)\<lparr>closed := True\<rparr>, w)))"
| "read_loop e (v # rest) bend dw =
     (case dw of (d, w) \<Rightarrow>
        (let ls = split_lines (buffer d @ v) in
           (case process_lines e (butlast ls) (d\<lparr>buffer := last ls\<rparr>, w) of
              (True, dw1) \<Rightarrow> dw1
            | (False, dw1) \<Rightarrow> read_loop e rest bend dw1)))"

definition start :: "env \<Rightarrow> body \<Rightarrow> world \<Rightarrow> event list \<times> world" where
  "start e bd w =
     (case read_loop e (fst bd) (snd bd)
             (\<lparr>buffer = [], isFirstChunk = True, hasError = False, queue = [], closed = False\<rparr>, w) of
        (d, w1) \<Rightarrow> (queue d, w1))"

section \<open>graphql/resolvers\<close>

fun typeof_js :: "json \<Rightarrow> string" where
  "typeof_js JNull = ''object''"
| "typeof_js (JBool b) = ''boolean''"
| "typeof_js (JNum n) = ''number''"
| "typeof_js (JStr s) = ''string''"
| "typeof_js (JArr xs) = ''object''"
| "typeof_js (JObj kvs) = ''object''"

fun string_value :: "json \<Rightarrow> string" where
  "string_value (JStr s) = s"
| "string_value v = []"

text \<open>The guard \<^verbatim>\<open>!message || typeof message !== 'string' || message.trim().length === 0\<close>.\<close>

definition message_rejected :: "json \<Rightarrow> bool" where
  "message_rejected msg =
     (\<not> truthy msg \<or> typeof_js msg \<noteq> ''string'' \<or> length (trim (string_value msg)) = 0)"

definition put_session :: "string \<Rightarrow> ChatSession \<Rightarrow> world \<Rightarrow> world" where
  "put_session k s w = w\<lparr>chatSessions := AList.update k s (chatSessions w)\<rparr>"

text \<open>A new session object, as createChatSession and sendMessage both build it.\<close>

definition new_session :: "env \<Rightarrow> world \<Rightarrow> ChatSession \<times> world" where
  "new_session e w =
     (case generateId e w of (sessionId, w1) \<Rightarrow>
      case Date_now e w1 of (c, w2) \<Rightarrow>
      case Date_now e w2 of (u, w3) \<Rightarrow>
        (let s = \<lparr>session_id = sessionId, messages = [], createdAt = c, updatedAt = u\<rparr>
         in (s, put_session sessionId s w3)))"

text \<open>The session of a sendMessage: the one found under the given id
  (\<^verbatim>\<open>sessionId ? chatSessions.get(sessionId) : null\<close>), or a new one. The key is where the
  object sits in the map.\<close>

definition lookup_session :: "json \<Rightarrow> world \<Rightarrow> ChatSession option" where
  "lookup_session sessionId w =
     (if truthy sessionId then store_get (chatSessions w) sessionId else None)"

definition get_or_create :: "env \<Rightarrow> json \<Rightarrow> world \<Rightarrow> (string \<times> ChatSession) \<times> world" where
  "get_or_create e sessionId w =
     (case lookup_session sessionId w of
        Some s \<Rightarrow> ((string_value sessionId, s), w)
      | None \<Rightarrow> (case new_session e w of (s, w1) \<Rightarrow> ((session_id s, s), w1)))"

definition new_message :: "env \<Rightarrow> role \<Rightarrow> string \<Rightarrow> world \<Rightarrow> addr \<times> world" where
  "new_message e r c w =
     (case generateId e w of (i, w1) \<Rightarrow>
      case Date_now e w1 of (t, w2) \<Rightarrow>
        alloc \<lparr>message_id = i, role = r, content = c, timestamp = t\<rparr> w2)"

definition handleSendMessage :: "env \<Rightarrow> string \<Rightarrow> variables \<Rightarrow> world \<Rightarrow> gql_response \<times> world" where
  "handleSendMessage e query vars w =
     (let sessionId = resolve vars query ''sessionId'';
          msg = resolve vars query ''message'';
          useStream = js_or (Some (resolve vars query ''stream'')) (JBool True)
      in if message_rejected msg then
           (Errors [''Message content is required and cannot be empty''], w)
         else
           (case get_or_create e sessionId w of ((k, s0), w1) \<Rightarrow>
            case new_message e User (trim (string_value msg)) w1 of (ua, w2) \<Rightarrow>
              (let s1 = s0\<lparr>messages := messages s0 @ [ua]\<rparr>;
                   w3 = put_session k s1 w2
               in case callDeepSeekAPI e (map (\<lambda>a. heap w3 ! a) (messages s1)) w3 of
                    (Inr bd, w4) \<Rightarrow>
                      (case new_message e Assistant [] w4 of (aa, w5) \<Rightarrow>
                       case Date_now e w5 of (t, w6) \<Rightarrow>
                         (let s2 = s1\<lparr>messages := messages s1 @ [aa], updatedAt := t\<rparr>
                          in (Data (SendMessage
                                \<lparr>success = True, message = None,
                                 stream = Some \<lparr>upstream = bd, assistant = aa\<rparr>,
                                 session = s2, error = None\<rparr>),
                              put_session k s2 w6)))
                  | (Inl err, w4) \<Rightarrow>
                      (case Date_now e w4 of (t, w5) \<Rightarrow>
                         (let s2 = s1\<lparr>updatedAt := t\<rparr>
                          in (Data (SendMessage
                                \<lparr>success = False, message = Some None, stream = None,
                                 session = s2,
                                 error = Some (case err of
                                                 JsError m \<Rightarrow> m
                                               | NonError \<Rightarrow> ''AI service temporarily unavailable'')\<rparr>),
                              put_session k s2 w5))))))"

text \<open>
  The reader that handleSendMessage starts before it returns: every chunk of the
  adapter's stream is appended to \<open>fullContent\<close>, which is written to the assistant
  message, and passed on to the response. The reader is taken to keep pace with the
  adapter, so that it sees every chunk that was enqueued.
\<close>

fun pump :: "string list \<Rightarrow> string \<Rightarrow> addr \<Rightarrow> ChatMessage list \<Rightarrow> ChatMessage list" where
  "pump [] fullContent a h = h"
| "pump (v # vs) fullContent a h =
     pump vs (fullContent @ v) a (h[a := (h ! a)\<lparr>content := fullContent @ v\<rparr>])"

definition consume :: "env \<Rightarrow> pending_stream \<Rightarrow> world \<Rightarrow> string list \<times> world" where
  "consume e ps w =
     (case start e (upstream ps) w of (evs, w1) \<Rightarrow>
        (map chunk_of evs, w1\<lparr>heap := pump (map chunk_of evs) [] (assistant ps) (heap w1)\<rparr>))"

definition hello_text :: string where
  "hello_text = ''Hello from GraphQL AI Chat API! '' @ [CHR 0xF0, CHR 0x9F, CHR 0x9A, CHR 0x80]"

text \<open>The branches of executeGraphQL, each the body of one \<^verbatim>\<open>if\<close>, then the chain itself.\<close>

definition hello_query :: "world \<Rightarrow> gql_response \<times> world" where
  "hello_query w = (Data (Hello hello_text), w)"

definition apiInfo_query :: "env \<Rightarrow> world \<Rightarrow> gql_response \<times> world" where
  "apiInfo_query e w =
     (case Date_now e w of (ts, w1) \<Rightarrow>
      case Date_now e w1 of (up, w2) \<Rightarrow>
        (Data (ApiInfo \<lparr>info_timestamp = ts, sessionsCount = length (chatSessions w), uptime = up\<rparr>), w2))"

definition getChatSession_query :: "string \<Rightarrow> variables \<Rightarrow> world \<Rightarrow> gql_response \<times> world" where
  "getChatSession_query query vars w =
     (let sessionId = resolve vars query ''id'' in
      if truthy sessionId then (Data (GetChatSession (store_get (chatSessions w) sessionId)), w)
      else (Errors [''Session ID is required for getChatSession query''], w))"

definition createChatSession_mutation :: "env \<Rightarrow> world \<Rightarrow> gql_response \<times> world" where
  "createChatSession_mutation e w =
     (case new_session e w of (s, w1) \<Rightarrow> (Data (CreateChatSession s), w1))"

definition clearChatSession_mutation :: "env \<Rightarrow> string \<Rightarrow> variables \<Rightarrow> world \<Rightarrow> gql_response \<times> world" where
  "clearChatSession_mutation e query vars w =
     (let sessionId = resolve vars query ''sessionId'' in
      if truthy sessionId then
        (case store_get (chatSessions w) sessionId of
           None \<Rightarrow> (Errors [''Session '' @ js_to_string sessionId @ '' not found''], w)
         | Some s \<Rightarrow>
             (case Date_now e w of (t, w1) \<Rightarrow>
                (let s1 = s\<lparr>messages := [], updatedAt := t\<rparr>
                 in (Data (ClearChatSession s1), put_session (string_value sessionId) s1 w1))))
      else (Errors [''Session ID is required for clearChatSession mutation''], w))"

definition deleteChatSession_mutation :: "string \<Rightarrow> variables \<Rightarrow> world \<Rightarrow> gql_response \<times> world" where
  "deleteChatSession_mutation query vars w =
     (let sessionId = resolve vars query ''sessionId'' in
      if truthy sessionId then
        (case store_delete (chatSessions w) sessionId of
           (deleted, st) \<Rightarrow> (Data (DeleteChatSession deleted), w\<lparr>chatSessions := st\<rparr>))
      else (Errors [''Session ID is required for deleteChatSession mutation''], w))"

definition unknown_operation :: "world \<Rightarrow> gql_response \<times> world" where
  "unknown_operation w =
     (Errors [''Unknown GraphQL operation. Please check your query syntax.''], w)"

definition executeGraphQL :: "env \<Rightarrow> string \<Rightarrow> variables \<Rightarrow> world \<Rightarrow> gql_response \<times> world" where
  "executeGraphQL e query vars w =
     (let queryStr = trim query in
      if str_includes queryStr ''hello'' then hello_query w
      else if str_includes queryStr ''apiInfo'' then apiInfo_query e w
      else if str_includes queryStr ''getChatSession'' then getChatSession_query query vars w
      else if str_includes queryStr ''createChatSession'' then createChatSession_mutation e w
      else if str_includes queryStr ''clearChatSession'' then clearChatSession_mutation e query vars w
      else if str_includes queryStr ''deleteChatSession'' then deleteChatSession_mutation query vars w
      else if str_includes queryStr ''sendMessage'' then handleSendMessage e query vars w
      else unknown_operation w)"

section \<open>handlers/graphql\<close>




section \<open>The classifier as the specification words it\<close>

text \<open>
  The specification's Operation Classifier: an ordered table of operation names, tested
  for containment in the raw query text, the first match winning. \<open>perform\<close> runs the
  resolver of an operation.
\<close>

datatype operation =
    OpHello | OpApiInfo | OpGetChatSession | OpCreateChatSession
  | OpClearChatSession | OpDeleteChatSession | OpSendMessage | OpUnknown

definition operation_table :: "(string \<times> operation) list" where
  "operation_table =
     [(''hello'', OpHello), (''apiInfo'', OpApiInfo), (''getChatSession'', OpGetChatSession),
      (''createChatSession'', OpCreateChatSession), (''clearChatSession'', OpClearChatSession),
      (''deleteChatSession'', OpDeleteChatSession), (''sendMessage'', OpSendMessage)]"

fun first_match :: "(string \<times> operation) list \<Rightarrow> string \<Rightarrow> operation" where
  "first_match [] q = OpUnknown"
| "first_match ((name, opn) # rest) q = (if str_includes q name then opn else first_match rest q)"

definition classify_spec :: "string \<Rightarrow> operation" where
  "classify_spec q = first_match operation_table q"

fun perform :: "operation \<Rightarrow> env \<Rightarrow> string \<Rightarrow> variables \<Rightarrow> world \<Rightarrow> gql_response \<times> world" where
  "perform OpHello e q vars w = hello_query w"
| "perform OpApiInfo e q vars w = apiInfo_query e w"
| "perform OpGetChatSession e q vars w = getChatSession_query q vars w"
| "perform OpCreateChatSession e q vars w = createChatSession_mutation e w"
| "perform OpClearChatSession e q vars w = clearChatSession_mutation e q vars w"
| "perform OpDeleteChatSession e q vars w = deleteChatSession_mutation q vars w"
| "perform OpSendMessage e q vars w = handleSendMessage e q vars w"
| "perform OpUnknown e q vars w = unknown_operation w"

section \<open>The resolver's text pattern as the specification words it\<close>



section \<open>The states the service reaches\<close>


section \<open>Ways the completion call fails\<close>




section \<open>Sample inputs\<close>

text \<open>
  A completion payload carrying the token \<open>Hi\<close>, what \<^verbatim>\<open>JSON.parse\<close> makes of it, an
  environment whose clock advances by \<open>d\<close> between readings, and two upstream answers:
  a streamed body that ends with the sentinel, and a server error.
\<close>

definition hi_payload :: string where
  \<open>hi_payload = ''{"choices":[{"delta":{"content":"Hi"}}]}''\<close>

definition sample_parse :: "string \<Rightarrow> json option" where
  "sample_parse s =
     (if s = hi_payload
      then Some (JObj [(''choices'', JArr [JObj [(''delta'', JObj [(''content'', JStr ''Hi'')])]])])
      else None)"

definition sample_env :: "nat \<Rightarrow> fetch_outcome \<Rightarrow> env" where
  "sample_env d outcome =
     \<lparr>tick = (\<lambda>n. d), random = (\<lambda>n. ''abc''), fetch = (\<lambda>n ms. outcome), JSON_parse = sample_parse\<rparr>"

definition done_body :: body where
  "done_body =
     ([''data: '' @ hi_payload @ [CHR 0x0A, CHR 0x0A] @ ''data: [DONE]'' @ [CHR 0x0A, CHR 0x0A]],
      EndOfBody)"

definition ok_response :: fetch_outcome where
  "ok_response =
     Resolves \<lparr>ok = True, status = 200, text_result = Inr [], response_body = Some done_body\<rparr>"



text \<open>The state after one createChatSession on the empty store.\<close>

definition created_world :: "nat \<Rightarrow> world" where
  "created_world d =
     snd (executeGraphQL (sample_env d ok_response) ''mutation { createChatSession { id } }'' []
            initial_world)"

section \<open>Auxiliary notions\<close>

text \<open>A step that reads the clock and touches neither the store nor the heap.\<close>

definition clock_only :: "world \<Rightarrow> world \<Rightarrow> bool" where
  "clock_only w w' =
     (heap w' = heap w \<and> chatSessions w' = chatSessions w \<and> clock w \<le> clock w')"

text \<open>
  The shape of the adapter's events: before the first content nothing is a start marker
  or a content; from then on there is exactly one start marker, and it precedes every
  content. The flag is the decoder's \<open>isFirstChunk\<close>.
\<close>

fun is_Start :: "event \<Rightarrow> bool" where
  "is_Start (Start t) = True"
| "is_Start ev = False"

fun is_Content :: "event \<Rightarrow> bool" where
  "is_Content (Content c) = True"
| "is_Content ev = False"

definition started_once :: "event list \<Rightarrow> bool" where
  "started_once evs =
     (\<exists>pre t post. evs = pre @ Start t # post
        \<and> list_all (\<lambda>ev. \<not> is_Start ev \<and> \<not> is_Content ev) pre
        \<and> list_all (\<lambda>ev. \<not> is_Start ev) post)"

definition well_started :: "bool \<Rightarrow> event list \<Rightarrow> bool" where
  "well_started first evs =
     (if first then list_all (\<lambda>ev. \<not> is_Start ev \<and> \<not> is_Content ev) evs
      else started_once evs)"



section \<open>Substring containment and trimming\<close>

lemma startsWith_iff: "startsWith s p \<longleftrightarrow> (\<exists>b. s = p @ b)"
proof
  assume "startsWith s p"
  then have "s = p @ drop (length p) s"
    by (metis append_take_drop_id startsWith_def)
  then show "\<exists>b. s = p @ b" ..
next
  assume "\<exists>b. s = p @ b"
  then show "startsWith s p" by (auto simp: startsWith_def)
qed

lemma str_includes_iff: "str_includes s p \<longleftrightarrow> (\<exists>a b. s = a @ p @ b)"
proof (induction s)
  case Nil
  show ?case by auto
next
  case (Cons c cs)
  have "(\<exists>a b. c # cs = a @ p @ b) \<longleftrightarrow> (\<exists>b. c # cs = p @ b) \<or> (\<exists>a b. cs = a @ p @ b)"
  proof
    assume "\<exists>a b. c # cs = a @ p @ b"
    then obtain a b where ab: "c # cs = a @ p @ b" by blast
    show "(\<exists>b. c # cs = p @ b) \<or> (\<exists>a b. cs = a @ p @ b)"
    proof (cases a)
      case Nil
      with ab show ?thesis by auto
    next
      case (Cons x a')
      with ab have "cs = a' @ p @ b" by simp
      then show ?thesis by blast
    qed
  next
    assume "(\<exists>b. c # cs = p @ b) \<or> (\<exists>a b. cs = a @ p @ b)"
    then show "\<exists>a b. c # cs = a @ p @ b"
    proof
      assume "\<exists>b. c # cs = p @ b"
      then obtain b where "c # cs = [] @ p @ b" by auto
      then show ?thesis by blast
    next
      assume "\<exists>a b. cs = a @ p @ b"
      then obtain a b where "c # cs = (c # a) @ p @ b" by auto
      then show ?thesis by blast
    qed
  qed
  with Cons show ?case by (simp add: startsWith_iff)
qed

lemma str_includes_rev: "str_includes (rev s) (rev p) = str_includes s p"
proof -
  have "(\<exists>a b. rev s = a @ rev p @ b) \<longleftrightarrow> (\<exists>a b. s = a @ p @ b)"
  proof
    assume "\<exists>a b. rev s = a @ rev p @ b"
    then obtain a b where "rev s = a @ rev p @ b" by blast
    then have "rev (rev s) = rev (a @ rev p @ b)" by simp
    then have "s = rev b @ p @ rev a" by simp
    then show "\<exists>a b. s = a @ p @ b" by blast
  next
    assume "\<exists>a b. s = a @ p @ b"
    then obtain a b where "s = a @ p @ b" by blast
    then have "rev s = rev b @ rev p @ rev a" by simp
    then show "\<exists>a b. rev s = a @ rev p @ b" by blast
  qed
  then show ?thesis by (simp add: str_includes_iff)
qed

lemma str_includes_dropWhile:
  "p \<noteq> [] \<Longrightarrow> \<not> P (hd p) \<Longrightarrow> str_includes (dropWhile P s) p = str_includes s p"
proof (induction s)
  case Nil
  show ?case by simp
next
  case (Cons c cs)
  show ?case
  proof (cases "P c")
    case True
    with Cons.prems have "\<not> startsWith (c # cs) p"
      by (cases p) (auto simp: startsWith_def)
    with True Cons show ?thesis by simp
  next
    case False
    then show ?thesis by simp
  qed
qed

lemma str_includes_trim:
  assumes "p \<noteq> []" "\<not> is_space (hd p)" "\<not> is_space (last p)"
  shows "str_includes (trim s) p = str_includes s p"
proof -
  have "str_includes (trim s) p = str_includes (dropWhile is_space (rev (dropWhile is_space s))) (rev p)"
    unfolding trim_def using str_includes_rev [of "dropWhile is_space (rev (dropWhile is_space s))" "rev p"]
    by simp
  also have "\<dots> = str_includes (rev (dropWhile is_space s)) (rev p)"
    using assms by (intro str_includes_dropWhile) (auto simp: hd_rev)
  also have "\<dots> = str_includes (dropWhile is_space s) p"
    by (rule str_includes_rev)
  also have "\<dots> = str_includes s p"
    using assms by (intro str_includes_dropWhile) auto
  finally show ?thesis .
qed

lemma executeGraphQL_perform:
  "executeGraphQL e q vars w = perform (classify_spec q) e q vars w"
  by (simp add: executeGraphQL_def classify_spec_def operation_table_def str_includes_trim is_space_def)


section \<open>Validation of the message (C2)\<close>



section \<open>Classification (C4)\<close>

text \<open>
  C4. executeGraphQL runs the resolver of the operation that the ordered table selects:
  containment of the operation names is tested in the order hello, apiInfo,
  getChatSession, createChatSession, clearChatSession, deleteChatSession, sendMessage,
  and the first name contained wins. The query \<^verbatim>\<open>mutation { createChatSession { id } }\<close>
  is classified as createChatSession. A query containing none of the names gets the
  error for an unknown operation, and the state is unchanged.
\<close>

theorem classification_priority_order:
  "executeGraphQL e q vars w = perform (classify_spec q) e q vars w
   \<and> map fst operation_table
       = [''hello'', ''apiInfo'', ''getChatSession'', ''createChatSession'',
          ''clearChatSession'', ''deleteChatSession'', ''sendMessage'']
   \<and> classify_spec ''mutation { createChatSession { id } }'' = OpCreateChatSession
   \<and> (list_all (\<lambda>name. \<not> str_includes q name) (map fst operation_table) \<longrightarrow>
        executeGraphQL e q vars w
          = (Errors [''Unknown GraphQL operation. Please check your query syntax.''], w))"
proof -
  have a: "executeGraphQL e q vars w = perform (classify_spec q) e q vars w"
    by (rule executeGraphQL_perform)
  have b: "classify_spec ''mutation { createChatSession { id } }'' = OpCreateChatSession"
    by (simp add: classify_spec_def operation_table_def startsWith_def)
  have c: "classify_spec q = OpUnknown"
    if "list_all (\<lambda>name. \<not> str_includes q name) (map fst operation_table)"
    using that by (simp add: classify_spec_def operation_table_def)
  show ?thesis
    using a b c by (simp add: unknown_operation_def operation_table_def)
qed

theorem classification_priority_order_witness:
  "list_all (\<lambda>name. \<not> str_includes ''{ ping }'' name) (map fst operation_table)
   \<and> executeGraphQL (sample_env 1 ok_response) ''{ ping }'' [] initial_world
       = (Errors [''Unknown GraphQL operation. Please check your query syntax.''], initial_world)"
proof -
  have h: "list_all (\<lambda>name. \<not> str_includes ''{ ping }'' name) (map fst operation_table)"
    by (simp add: operation_table_def startsWith_def)
  show ?thesis
    using h classification_priority_order
      [of "sample_env 1 ok_response" "''{ ping }''" "[]" initial_world]
    by blast
qed

section \<open>Effects of the building blocks\<close>

lemmas run_defs =
  Date_now_def Math_random_def generateId_def alloc_def new_message_def new_session_def
  put_session_def Let_def









section \<open>A failing completion call (C3)\<close>




section \<open>Evaluating the sample inputs\<close>

lemma to_base_small: "2 \<le> b \<Longrightarrow> n < b \<Longrightarrow> to_base b n = [digit_char n]"
  by (subst to_base.simps) simp







lemma start_done_body:
  "start (sample_env d outcome) done_body w
     = ([Start (clock w + d), Content (JStr ''Hi'')],
        w\<lparr>clock := clock w + d, date_reads := Suc (date_reads w)\<rparr>)"
  unfolding start_def done_body_def
  by (simp add: hi_payload_def process_line_def emit_content_def enqueue_def startsWith_def
                sample_env_def sample_parse_def Date_now_def Let_def)

lemma match_here_no_colon: "CHR '':'' \<notin> set s \<Longrightarrow> match_here name s = None"
proof -
  assume a: "CHR '':'' \<notin> set s"
  have "drop (length name) s \<noteq> CHR '':'' # rest" for rest
  proof
    assume "drop (length name) s = CHR '':'' # rest"
    then have "CHR '':'' \<in> set (drop (length name) s)" by simp
    then have "CHR '':'' \<in> set s" by (rule in_set_dropD)
    with a show False by simp
  qed
  then show ?thesis
    by (auto simp: match_here_def split: list.splits)
qed

lemma regex_search_no_colon: "CHR '':'' \<notin> set s \<Longrightarrow> regex_search name s = None"
  by (induction s) (simp_all add: match_here_no_colon)



section \<open>The stream and its reader\<close>

lemma pump_content:
  "pump vs fullContent a h
     = (if vs = [] then h else h[a := (h ! a)\<lparr>content := fullContent @ concat vs\<rparr>])"
proof (induction vs arbitrary: fullContent h)
  case Nil
  show ?case by simp
next
  case (Cons v vs)
  show ?case
  proof (cases "a < length h")
    case True
    then show ?thesis by (simp add: Cons.IH)
  next
    case False
    then have "length h \<le> a" by simp
    then show ?thesis by (simp add: Cons.IH list_update_beyond)
  qed
qed

lemma clock_only_refl: "clock_only w w"
  by (simp add: clock_only_def)

lemma clock_only_trans: "clock_only w w1 \<Longrightarrow> clock_only w1 w2 \<Longrightarrow> clock_only w w2"
  by (simp add: clock_only_def)

lemma Date_now_clock_only: "Date_now e w = (t, w') \<Longrightarrow> clock_only w w'"
  by (auto simp: Date_now_def clock_only_def Let_def)

lemma emit_content_clock_only:
  "emit_content e parsed (d, w) = (d', w') \<Longrightarrow> clock_only w w'"
  by (auto simp: emit_content_def clock_only_refl split: option.splits if_splits prod.splits
           dest: Date_now_clock_only)

lemma process_line_clock_only:
  "process_line e line (d, w) = (b, d', w') \<Longrightarrow> clock_only w w'"
  by (auto simp: process_line_def Let_def clock_only_refl
           split: option.splits if_splits prod.splits json.splits
           dest: emit_content_clock_only)

lemma process_lines_clock_only:
  "process_lines e ls (d, w) = (b, d', w') \<Longrightarrow> clock_only w w'"
proof (induction ls arbitrary: d w)
  case Nil
  then show ?case by (simp add: clock_only_refl)
next
  case (Cons l ls)
  obtain b1 d1 w1 where p: "process_line e l (d, w) = (b1, d1, w1)"
    by (metis prod.exhaust)
  note c1 = process_line_clock_only [OF p]
  show ?case
  proof (cases b1)
    case True
    with Cons.prems p c1 show ?thesis by simp
  next
    case False
    with Cons.prems p have "process_lines e ls (d1, w1) = (b, d', w')" by simp
    from Cons.IH [OF this] c1 show ?thesis by (rule clock_only_trans [rotated])
  qed
qed

lemma read_loop_clock_only:
  "read_loop e vs bend (d, w) = (d', w') \<Longrightarrow> clock_only w w'"
proof (induction vs arbitrary: d w)
  case Nil
  then show ?case
    by (auto simp: clock_only_refl split: body_end.splits thrown.splits if_splits prod.splits
             dest: Date_now_clock_only)
next
  case (Cons v vs)
  let ?ls = "split_lines (buffer d @ v)"
  obtain b1 d1 w1 where p: "process_lines e (butlast ?ls) (d\<lparr>buffer := last ?ls\<rparr>, w) = (b1, d1, w1)"
    by (metis prod.exhaust)
  note c1 = process_lines_clock_only [OF p]
  show ?case
  proof (cases b1)
    case True
    with Cons.prems p c1 show ?thesis by (simp add: Let_def)
  next
    case False
    with Cons.prems p have "read_loop e vs bend (d1, w1) = (d', w')" by (simp add: Let_def)
    from Cons.IH [OF this] c1 show ?thesis by (rule clock_only_trans [rotated])
  qed
qed

lemma start_clock_only: "start e bd w = (evs, w') \<Longrightarrow> clock_only w w'"
  by (auto simp: start_def split: prod.splits dest: read_loop_clock_only)

lemma consume_assistant_content:
  assumes "consume e ps w = (chunks, w')" and "assistant ps < length (heap w)" and "chunks \<noteq> []"
  shows "chunks = map chunk_of (fst (start e (upstream ps) w))"
    and "content (heap w' ! assistant ps) = concat chunks"
proof -
  obtain evs w1 where s: "start e (upstream ps) w = (evs, w1)"
    by (metis prod.exhaust)
  from start_clock_only [OF s] have h: "heap w1 = heap w"
    by (simp add: clock_only_def)
  from assms s show "chunks = map chunk_of (fst (start e (upstream ps) w))"
    by (auto simp: consume_def)
  from assms(1,3) s have ne: "evs \<noteq> []" and ch: "chunks = map chunk_of evs"
    by (auto simp: consume_def)
  from assms(1) s ne have "heap w' = (heap w)[assistant ps :=
      (heap w ! assistant ps)\<lparr>content := concat (map chunk_of evs)\<rparr>]"
    by (auto simp: consume_def pump_content h)
  with assms(2) show "content (heap w' ! assistant ps) = concat chunks"
    by (simp add: ch)
qed

lemma sentinel_line_not_parsed:
  "process_line e ''data: [DONE]'' (d, w) = (True, d\<lparr>closed := True\<rparr>, w)"
  by (simp add: process_line_def startsWith_def)

subsection \<open>One start marker, before the first content\<close>

lemma started_once_snoc:
  "started_once evs \<Longrightarrow> \<not> is_Start ev \<Longrightarrow> started_once (evs @ [ev])"
proof -
  assume a: "started_once evs" and b: "\<not> is_Start ev"
  from a obtain pre t post where
    e: "evs = pre @ Start t # post"
    and p: "list_all (\<lambda>ev. \<not> is_Start ev \<and> \<not> is_Content ev) pre"
    and q: "list_all (\<lambda>ev. \<not> is_Start ev) post"
    by (auto simp: started_once_def)
  have "evs @ [ev] = pre @ Start t # (post @ [ev])"
    by (simp add: e)
  moreover have "list_all (\<lambda>ev. \<not> is_Start ev) (post @ [ev])"
    using q b by simp
  ultimately show ?thesis
    unfolding started_once_def using p by blast
qed

lemma well_started_snoc:
  "well_started f evs \<Longrightarrow> \<not> is_Start ev \<Longrightarrow> \<not> is_Content ev \<Longrightarrow> well_started f (evs @ [ev])"
  by (auto simp: well_started_def started_once_snoc)

lemma well_started_first_content:
  assumes "well_started True evs"
  shows "well_started False (evs @ [Start t, Content c])"
proof -
  from assms have "list_all (\<lambda>ev. \<not> is_Start ev \<and> \<not> is_Content ev) evs"
    by (simp add: well_started_def)
  moreover have "evs @ [Start t, Content c] = evs @ Start t # [Content c]"
    by simp
  moreover have "list_all (\<lambda>ev. \<not> is_Start ev) [Content c]"
    by simp
  ultimately show ?thesis
    unfolding well_started_def started_once_def by (simp only: if_False) blast
qed

lemma emit_content_well_started:
  assumes "emit_content e parsed (d, w) = (d', w')"
      and "well_started (isFirstChunk d) (queue d)"
  shows "well_started (isFirstChunk d') (queue d')"
proof (cases "opt_prop (opt_prop (opt_first (get_prop parsed ''choices'')) ''delta'') ''content''")
  case None
  with assms show ?thesis by (simp add: emit_content_def)
next
  case (Some c)
  show ?thesis
  proof (cases "truthy c")
    case False
    with Some assms show ?thesis by (simp add: emit_content_def)
  next
    case True
    show ?thesis
    proof (cases "isFirstChunk d")
      case first: True
      obtain t w1 where dn: "Date_now e w = (t, w1)"
        by (metis prod.exhaust)
      from assms(1) Some True first dn
      have "queue d' = queue d @ [Start t, Content c]" "isFirstChunk d' = False"
        by (auto simp: emit_content_def enqueue_def)
      with assms(2) first show ?thesis
        by (simp add: well_started_first_content)
    next
      case notfirst: False
      from assms(1) Some True notfirst
      have "queue d' = queue d @ [Content c]" "isFirstChunk d' = False"
        by (auto simp: emit_content_def enqueue_def)
      with assms(2) notfirst show ?thesis
        by (simp add: well_started_def started_once_snoc)
    qed
  qed
qed

lemma enqueue_Error_well_started:
  "well_started (isFirstChunk d) (queue d) \<Longrightarrow>
     well_started (isFirstChunk (enqueue (Error m) d)) (queue (enqueue (Error m) d))"
  by (simp add: enqueue_def well_started_snoc)

lemma process_line_well_started:
  assumes "process_line e line (d, w) = (b, d', w')"
      and "well_started (isFirstChunk d) (queue d)"
  shows "well_started (isFirstChunk d') (queue d')"
  using assms
  by (auto simp: process_line_def Let_def enqueue_def well_started_snoc
           split: if_splits option.splits json.splits prod.splits
           dest: emit_content_well_started)

lemma process_lines_well_started:
  "process_lines e ls (d, w) = (b, d', w') \<Longrightarrow> well_started (isFirstChunk d) (queue d)
     \<Longrightarrow> well_started (isFirstChunk d') (queue d')"
proof (induction ls arbitrary: d w)
  case Nil
  then show ?case by simp
next
  case (Cons l ls)
  obtain b1 d1 w1 where p: "process_line e l (d, w) = (b1, d1, w1)"
    by (metis prod.exhaust)
  note ws = process_line_well_started [OF p Cons.prems(2)]
  show ?case
  proof (cases b1)
    case True
    with Cons.prems(1) p ws show ?thesis by simp
  next
    case False
    with Cons.prems(1) p have "process_lines e ls (d1, w1) = (b, d', w')" by simp
    from Cons.IH [OF this ws] show ?thesis .
  qed
qed

lemma read_loop_well_started:
  "read_loop e vs bend (d, w) = (d', w') \<Longrightarrow> well_started (isFirstChunk d) (queue d)
     \<Longrightarrow> well_started (isFirstChunk d') (queue d')"
proof (induction vs arbitrary: d w)
  case Nil
  then show ?case
    by (auto simp: enqueue_def well_started_snoc Date_now_def Let_def
             split: body_end.splits thrown.splits if_splits)
next
  case (Cons v vs)
  let ?ls = "split_lines (buffer d @ v)"
  let ?d0 = "d\<lparr>buffer := last ?ls\<rparr>"
  obtain b1 d1 w1 where p: "process_lines e (butlast ?ls) (?d0, w) = (b1, d1, w1)"
    by (metis prod.exhaust)
  have "well_started (isFirstChunk ?d0) (queue ?d0)"
    using Cons.prems(2) by simp
  note ws = process_lines_well_started [OF p this]
  show ?case
  proof (cases b1)
    case True
    with Cons.prems(1) p ws show ?thesis by (simp add: Let_def)
  next
    case False
    with Cons.prems(1) p have "read_loop e vs bend (d1, w1) = (d', w')" by (simp add: Let_def)
    from Cons.IH [OF this ws] show ?thesis .
  qed
qed

lemma start_events_shape:
  "list_all (\<lambda>ev. \<not> is_Start ev \<and> \<not> is_Content ev) (fst (start e bd w))
   \<or> started_once (fst (start e bd w))"
proof -
  let ?d0 = "\<lparr>buffer = [], isFirstChunk = True, hasError = False, queue = [], closed = False\<rparr>"
  obtain d' w' where r: "read_loop e (fst bd) (snd bd) (?d0, w) = (d', w')"
    by (metis prod.exhaust)
  have "well_started (isFirstChunk ?d0) (queue ?d0)"
    by (simp add: well_started_def)
  from read_loop_well_started [OF r this] have "well_started (isFirstChunk d') (queue d')" .
  moreover from r have "fst (start e bd w) = queue d'"
    by (simp add: start_def)
  ultimately show ?thesis
    by (auto simp: well_started_def split: if_splits)
qed

section \<open>The end marker after the sentinel (C7)\<close>

text \<open>
  C7. The claim is that a body which streams data lines and ends with the sentinel
  \<^verbatim>\<open>[DONE]\<close> is decoded to events that end with a trailing End event. The adapter
  closes the controller and returns as soon as it reads the sentinel line, before the
  statement that enqueues the end marker: on the sample body, in any state, the events
  are the start marker and the content, and nothing follows. The end marker is enqueued
  only when the body is exhausted without a sentinel. The other two parts of the claim
  hold for every body and environment: the sentinel line is never handed to
  \<^verbatim>\<open>JSON.parse\<close> (\<open>sentinel_line_not_parsed\<close>), and there is one start marker, before the
  first content (\<open>start_events_shape\<close>).
\<close>

theorem start_stops_at_sentinel_without_End:
  "fst (start (sample_env d outcome) done_body w) = [Start (clock w + d), Content (JStr ''Hi'')]"
  by (simp add: start_done_body)

section \<open>The assistant message after the stream (C1)\<close>


section \<open>The result of a successful send (C10)\<close>






section \<open>The invariant of the store\<close>



















lemma classify_sample_create:
  "classify_spec ''mutation { createChatSession { id } }'' = OpCreateChatSession"
  by (simp add: classify_spec_def operation_table_def startsWith_def)

lemma classify_sample_clear: "classify_spec ''mutation { clearChatSession }'' = OpClearChatSession"
  by (simp add: classify_spec_def operation_table_def startsWith_def)

lemma classify_sample_delete: "classify_spec ''mutation { deleteChatSession }'' = OpDeleteChatSession"
  by (simp add: classify_spec_def operation_table_def startsWith_def)

lemma classify_sample_get: "classify_spec ''query { getChatSession }'' = OpGetChatSession"
  by (simp add: classify_spec_def operation_table_def startsWith_def)

lemma created_world_1:
  "created_world 1 =
     \<lparr>chatSessions =
        [(''id_abc1'', \<lparr>session_id = ''id_abc1'', messages = [], createdAt = 2, updatedAt = 3\<rparr>)],
      heap = [], clock = 3, date_reads = 3, random_calls = 1, fetch_calls = 0\<rparr>"
  by (simp add: created_world_def executeGraphQL_perform classify_sample_create
                createChatSession_mutation_def run_defs sample_env_def initial_world_def
                to_base_small digit_char_def)



section \<open>Order of the timestamps (C9)\<close>



section \<open>Clearing a session (C6)\<close>




section \<open>Session ids that are not in the store (C5)\<close>

lemma delete_absent: "map_of al k = None \<Longrightarrow> AList.delete k al = al"
  by (induction al) (auto split: if_splits)

text \<open>
  C5, as amended. For every non-empty session id that is not in the store,
  clearChatSession returns the error \<open>Session <id> not found\<close>, deleteChatSession returns
  false and no error, getChatSession returns null and no error, and none of them changes
  the state. The claim as stated (every session id) fails for the empty string, which
  the resolvers treat as a missing argument: all three return the error that a session id
  is required.
\<close>

theorem unknown_session_id_results:
  assumes nonempty: "sid \<noteq> []" and absent: "map_of (chatSessions w) sid = None"
  shows "(classify_spec query = OpClearChatSession \<and> resolve vars query ''sessionId'' = JStr sid \<longrightarrow>
            executeGraphQL e query vars w = (Errors [''Session '' @ sid @ '' not found''], w))
       \<and> (classify_spec query = OpDeleteChatSession \<and> resolve vars query ''sessionId'' = JStr sid \<longrightarrow>
            executeGraphQL e query vars w = (Data (DeleteChatSession False), w))
       \<and> (classify_spec query = OpGetChatSession \<and> resolve vars query ''id'' = JStr sid \<longrightarrow>
            executeGraphQL e query vars w = (Data (GetChatSession None), w))"
proof (intro conjI impI)
  assume "classify_spec query = OpClearChatSession \<and> resolve vars query ''sessionId'' = JStr sid"
  with nonempty absent
  show "executeGraphQL e query vars w = (Errors [''Session '' @ sid @ '' not found''], w)"
    by (simp add: executeGraphQL_perform clearChatSession_mutation_def Let_def)
next
  assume a: "classify_spec query = OpDeleteChatSession \<and> resolve vars query ''sessionId'' = JStr sid"
  from absent have "sid \<notin> fst ` set (chatSessions w)"
    by (simp add: map_of_eq_None_iff)
  with a nonempty absent
  show "executeGraphQL e query vars w = (Data (DeleteChatSession False), w)"
    by (simp add: executeGraphQL_perform deleteChatSession_mutation_def Let_def delete_absent)
next
  assume "classify_spec query = OpGetChatSession \<and> resolve vars query ''id'' = JStr sid"
  with nonempty absent
  show "executeGraphQL e query vars w = (Data (GetChatSession None), w)"
    by (simp add: executeGraphQL_perform getChatSession_query_def Let_def)
qed

theorem unknown_session_id_results_witness:
  "''nope'' \<noteq> [] \<and> map_of (chatSessions (created_world 1)) ''nope'' = None
   \<and> executeGraphQL (sample_env 1 ok_response) ''mutation { clearChatSession }''
        [(''sessionId'', JStr ''nope'')] (created_world 1)
       = (Errors [''Session nope not found''], created_world 1)
   \<and> executeGraphQL (sample_env 1 ok_response) ''mutation { deleteChatSession }''
        [(''sessionId'', JStr ''nope'')] (created_world 1)
       = (Data (DeleteChatSession False), created_world 1)
   \<and> executeGraphQL (sample_env 1 ok_response) ''query { getChatSession }''
        [(''id'', JStr ''nope'')] (created_world 1)
       = (Data (GetChatSession None), created_world 1)"
proof -
  have h1: "''nope'' \<noteq> []" by simp
  have h2: "map_of (chatSessions (created_world 1)) ''nope'' = None"
    unfolding created_world_1 by simp
  have r1: "resolve [(''sessionId'', JStr ''nope'')] q ''sessionId'' = JStr ''nope''" for q
    by (simp add: resolve_def)
  have r2: "resolve [(''id'', JStr ''nope'')] q ''id'' = JStr ''nope''" for q
    by (simp add: resolve_def)
  show ?thesis
    using h1 h2
      unknown_session_id_results [OF h1 h2, of "''mutation { clearChatSession }''"
        "[(''sessionId'', JStr ''nope'')]" "sample_env 1 ok_response"]
      unknown_session_id_results [OF h1 h2, of "''mutation { deleteChatSession }''"
        "[(''sessionId'', JStr ''nope'')]" "sample_env 1 ok_response"]
      unknown_session_id_results [OF h1 h2, of "''query { getChatSession }''"
        "[(''id'', JStr ''nope'')]" "sample_env 1 ok_response"]
    by (simp add: r1 r2 classify_sample_clear classify_sample_delete classify_sample_get)
qed

theorem empty_session_id_counterexample:
  "map_of (chatSessions initial_world) [] = None
   \<and> executeGraphQL (sample_env 1 ok_response) ''mutation { deleteChatSession }''
        [(''sessionId'', JStr [])] initial_world
       = (Errors [''Session ID is required for deleteChatSession mutation''], initial_world)
   \<and> executeGraphQL (sample_env 1 ok_response) ''query { getChatSession }''
        [(''id'', JStr [])] initial_world
       = (Errors [''Session ID is required for getChatSession query''], initial_world)
   \<and> executeGraphQL (sample_env 1 ok_response) ''mutation { clearChatSession }''
        [(''sessionId'', JStr [])] initial_world
       = (Errors [''Session ID is required for clearChatSession mutation''], initial_world)"
  by (simp add: executeGraphQL_perform classify_sample_clear classify_sample_delete
                classify_sample_get deleteChatSession_mutation_def getChatSession_query_def
                clearChatSession_mutation_def resolve_def extractVariableFromQuery_def
                regex_search_no_colon initial_world_def Let_def del: regex_search.simps)

section \<open>Resolving an argument (C8)\<close>















end
